theory Spec2Isabelle
  imports Main "HOL-Library.Word"
begin

unbundle bit_operations_syntax

section \<open>Debugger: the breakpoint dialog (breakwindow.cpp)\<close>

text \<open>
  Qt's value types. A \<open>QString\<close> and a \<open>QByteArray\<close> are sequences of code units;
  the functions only copy and compare them, so both are lists of characters here. A C++
  \<open>int\<close> that is only stored and compared is an \<open>int\<close>; the address is a
  \<open>quint64\<close>, tested against zero, so it is a 64-bit word.
\<close>

type_synonym QString = string
type_synonym QByteArray = string
type_synonym quint64 = "64 word"

text \<open>
  The fields of \<open>BreakpointData\<close> that breakwindow.cpp reads or writes. The class is
  declared in breakhandler.h; whatever other members it has live in the record's extension
  (\<open>'a BreakpointData_scheme\<close>), which no function here touches.
\<close>

record BreakpointData =
  enabled :: bool
  fileName :: QString
  lineNumber :: int
  funcName :: QString
  condition :: QByteArray
  ignoreCount :: int
  useFullPath :: bool
  threadSpec :: QByteArray
  address :: quint64

text \<open>
  The widgets of \<open>Ui::BreakpointDialog\<close> that the dialog's code uses: the content of
  each input widget, and the enabled flag of each widget that \<open>typeChanged\<close> switches.
\<close>

record BreakpointDialog =
  pathChooserFileName_path :: QString
  lineEditLineNumber_text :: QString
  lineEditFunction_text :: QString
  lineEditCondition_text :: QString
  lineEditIgnoreCount_text :: QString
  checkBoxUseFullPath_checked :: bool
  lineEditThreadSpec_text :: QString
  lineEditAddress_text :: QString
  labelFileName_enabled :: bool
  pathChooserFileName_enabled :: bool
  labelLineNumber_enabled :: bool
  lineEditLineNumber_enabled :: bool
  labelUseFullPath_enabled :: bool
  checkBoxUseFullPath_enabled :: bool
  labelFunction_enabled :: bool
  lineEditFunction_enabled :: bool
  labelAddress_enabled :: bool
  lineEditAddress_enabled :: bool

text \<open>
  The conversions of the Qt library that \<open>showDialog\<close> calls. They are not code of the
  repository, so they are parameters: every statement below holds for whatever they
  compute.
  \<^item> \<open>number\<close>: \<open>QString::number(int)\<close>;
  \<^item> \<open>hexArg\<close>: \<open>QString::fromAscii("0x%1").arg(a, 0, 16)\<close>;
  \<^item> \<open>fromUtf8\<close>, \<open>toUtf8\<close>: \<open>QString::fromUtf8\<close>, \<open>QString::toUtf8\<close>;
  \<^item> \<open>toInt\<close>: \<open>QString::toInt()\<close>;
  \<^item> \<open>toULongLong\<close>: \<open>QString::toULongLong(0, 0)\<close>.
\<close>

record QtConversions =
  number :: "int \<Rightarrow> QString"
  hexArg :: "quint64 \<Rightarrow> QString"
  fromUtf8 :: "QByteArray \<Rightarrow> QString"
  toUtf8 :: "QString \<Rightarrow> QByteArray"
  toInt :: "QString \<Rightarrow> int"
  toULongLong :: "QString \<Rightarrow> quint64"

datatype DialogCode = Rejected | Accepted

text \<open>\<open>BreakpointDialog::typeChanged(int index)\<close>, lines 168-185.\<close>

definition typeChanged :: "int \<Rightarrow> BreakpointDialog \<Rightarrow> BreakpointDialog" where
  "typeChanged index ui =
     (let isLineVisible = (index = 0);
          isFunctionVisible = (index = 1);
          isAddressVisible = (index = 3);
          ui1 = ui\<lparr>labelFileName_enabled := isLineVisible,
                    pathChooserFileName_enabled := isLineVisible,
                    labelLineNumber_enabled := isLineVisible,
                    lineEditLineNumber_enabled := isLineVisible,
                    labelUseFullPath_enabled := isLineVisible,
                    checkBoxUseFullPath_enabled := isLineVisible,
                    labelFunction_enabled := isFunctionVisible,
                    lineEditFunction_enabled := isFunctionVisible,
                    labelAddress_enabled := isAddressVisible,
                    lineEditAddress_enabled := isAddressVisible\<rparr>
      in if index = 2 then ui1\<lparr>lineEditFunction_text := ''main''\<rparr> else ui1)"

text \<open>
  The first part of \<open>showDialog\<close>, lines 123-137: the widgets are filled from the
  breakpoint and the type is chosen. The address field is written only for a non-zero
  address.
\<close>

definition populate ::
  "QtConversions \<Rightarrow> 'a BreakpointData_scheme \<Rightarrow> BreakpointDialog \<Rightarrow> BreakpointDialog" where
  "populate qt data ui =
     (let ui1 = ui\<lparr>pathChooserFileName_path := fileName data,
                    lineEditLineNumber_text := number qt (lineNumber data),
                    lineEditFunction_text := funcName data,
                    lineEditCondition_text := fromUtf8 qt (condition data),
                    lineEditIgnoreCount_text := number qt (ignoreCount data),
                    checkBoxUseFullPath_checked := useFullPath data,
                    lineEditThreadSpec_text := fromUtf8 qt (threadSpec data)\<rparr>;
          ui2 = (if address data \<noteq> 0
                 then ui1\<lparr>lineEditAddress_text := hexArg qt (address data)\<rparr> else ui1);
          initialType0 = (if funcName data \<noteq> []
                          then (if funcName data = ''main'' then 2 else 1) else 0);
          initialType = (if address data \<noteq> 0 then 3 else initialType0)
      in typeChanged initialType ui2)"

text \<open>
  The values read back from the widgets after \<open>exec()\<close>, lines 143-150
  (\<open>newLineNumber\<close>, \<open>newUseFullPath\<close>, \<open>newAddress\<close>, \<open>newFunc\<close>, \<open>newFileName\<close>,
  \<open>newCondition\<close>, \<open>newIgnoreCount\<close>, \<open>newThreadSpec\<close>).
\<close>

definition newLineNumber :: "QtConversions \<Rightarrow> BreakpointDialog \<Rightarrow> int" where
  "newLineNumber qt ui = toInt qt (lineEditLineNumber_text ui)"

definition newUseFullPath :: "BreakpointDialog \<Rightarrow> bool" where
  "newUseFullPath ui = checkBoxUseFullPath_checked ui"

definition newAddress :: "QtConversions \<Rightarrow> BreakpointDialog \<Rightarrow> quint64" where
  "newAddress qt ui = toULongLong qt (lineEditAddress_text ui)"

definition newFunc :: "BreakpointDialog \<Rightarrow> QString" where
  "newFunc ui = lineEditFunction_text ui"

definition newFileName :: "BreakpointDialog \<Rightarrow> QString" where
  "newFileName ui = pathChooserFileName_path ui"

definition newCondition :: "QtConversions \<Rightarrow> BreakpointDialog \<Rightarrow> QByteArray" where
  "newCondition qt ui = toUtf8 qt (lineEditCondition_text ui)"

definition newIgnoreCount :: "QtConversions \<Rightarrow> BreakpointDialog \<Rightarrow> int" where
  "newIgnoreCount qt ui = toInt qt (lineEditIgnoreCount_text ui)"

definition newThreadSpec :: "QtConversions \<Rightarrow> BreakpointDialog \<Rightarrow> QByteArray" where
  "newThreadSpec qt ui = toUtf8 qt (lineEditThreadSpec_text ui)"

text \<open>The comparison of lines 151-154: every value read back equals the stored one.\<close>

definition unchanged ::
  "QtConversions \<Rightarrow> BreakpointDialog \<Rightarrow> 'a BreakpointData_scheme \<Rightarrow> bool" where
  "unchanged qt ui data \<longleftrightarrow>
     newLineNumber qt ui = lineNumber data \<and> newUseFullPath ui = useFullPath data
     \<and> newAddress qt ui = address data \<and> newFunc ui = funcName data
     \<and> newFileName ui = fileName data \<and> newCondition qt ui = condition data
     \<and> newIgnoreCount qt ui = ignoreCount data \<and> newThreadSpec qt ui = threadSpec data"

text \<open>The assignments of lines 157-164.\<close>

definition store ::
  "QtConversions \<Rightarrow> BreakpointDialog \<Rightarrow> 'a BreakpointData_scheme \<Rightarrow> 'a BreakpointData_scheme" where
  "store qt ui data =
     data\<lparr>address := newAddress qt ui,
          funcName := newFunc ui,
          useFullPath := newUseFullPath ui,
          fileName := newFileName ui,
          lineNumber := newLineNumber qt ui,
          condition := newCondition qt ui,
          ignoreCount := newIgnoreCount qt ui,
          threadSpec := newThreadSpec qt ui\<rparr>"

text \<open>
  \<open>BreakpointDialog::showDialog(BreakpointData *data)\<close>, lines 121-166. \<open>exec()\<close> runs
  the dialog: the user edits the widgets (which may fire \<open>typeChanged\<close> any number of
  times) and closes the dialog. It is the environment, so it is a parameter: any function
  from the widgets as shown to the result code and the widgets as left. The result is the
  returned flag, the breakpoint the pointer refers to afterwards, and the dialog.
\<close>

definition showDialog ::
  "QtConversions \<Rightarrow> (BreakpointDialog \<Rightarrow> DialogCode \<times> BreakpointDialog) \<Rightarrow>
   'a BreakpointData_scheme \<Rightarrow> BreakpointDialog \<Rightarrow>
   bool \<times> 'a BreakpointData_scheme \<times> BreakpointDialog" where
  "showDialog qt exec data ui =
     (case exec (populate qt data ui) of (code, ui') \<Rightarrow>
        if code \<noteq> Accepted then (False, data, ui')
        else if unchanged qt ui' data then (False, data, ui')
        else (True, store qt ui' data, ui'))"

text \<open>A freshly constructed dialog: empty fields, everything enabled.\<close>

definition freshDialog :: BreakpointDialog where
  "freshDialog =
     \<lparr>pathChooserFileName_path = [], lineEditLineNumber_text = [],
      lineEditFunction_text = [], lineEditCondition_text = [],
      lineEditIgnoreCount_text = [], checkBoxUseFullPath_checked = False,
      lineEditThreadSpec_text = [], lineEditAddress_text = [],
      labelFileName_enabled = True, pathChooserFileName_enabled = True,
      labelLineNumber_enabled = True, lineEditLineNumber_enabled = True,
      labelUseFullPath_enabled = True, checkBoxUseFullPath_enabled = True,
      labelFunction_enabled = True, lineEditFunction_enabled = True,
      labelAddress_enabled = True, lineEditAddress_enabled = True\<rparr>"

text \<open>
  A breakpoint to run the dialog on, for any conversions \<open>qt\<close>: its fields are what
  \<open>qt\<close> reads from the texts \<open>main.cpp\<close>, \<open>12\<close>, \<open>x > 3\<close>, \<open>0\<close> and from empty
  function, thread and address fields.
\<close>

definition breakpointRead :: "QtConversions \<Rightarrow> BreakpointData" where
  "breakpointRead qt =
     \<lparr>enabled = True, fileName = ''main.cpp'', lineNumber = toInt qt ''12'',
      funcName = [], condition = toUtf8 qt ''x > 3'', ignoreCount = toInt qt ''0'',
      useFullPath = False, threadSpec = toUtf8 qt [], address = toULongLong qt []\<rparr>"

text \<open>
  Three users of the dialog. The first overwrites all eight inputs and accepts; the
  second makes the same edits and cancels; the third types the texts the breakpoint was
  read from and accepts.
\<close>

definition userEditsAll :: "BreakpointDialog \<Rightarrow> DialogCode \<times> BreakpointDialog" where
  "userEditsAll ui =
     (Accepted, ui\<lparr>pathChooserFileName_path := ''util.cpp'',
                     lineEditLineNumber_text := ''42'',
                     lineEditFunction_text := ''main'',
                     lineEditCondition_text := ''i == 7'',
                     lineEditIgnoreCount_text := ''3'',
                     checkBoxUseFullPath_checked := True,
                     lineEditThreadSpec_text := ''2'',
                     lineEditAddress_text := ''0x10''\<rparr>)"

definition userCancels :: "BreakpointDialog \<Rightarrow> DialogCode \<times> BreakpointDialog" where
  "userCancels ui = (Rejected, snd (userEditsAll ui))"

definition userRetypes :: "BreakpointDialog \<Rightarrow> DialogCode \<times> BreakpointDialog" where
  "userRetypes ui =
     (Accepted, ui\<lparr>pathChooserFileName_path := ''main.cpp'',
                     lineEditLineNumber_text := ''12'',
                     lineEditFunction_text := [],
                     lineEditCondition_text := ''x > 3'',
                     lineEditIgnoreCount_text := ''0'',
                     checkBoxUseFullPath_checked := False,
                     lineEditThreadSpec_text := [],
                     lineEditAddress_text := []\<rparr>)"

section \<open>Debugger: deleting breakpoints (breakwindow.cpp)\<close>

text \<open>
  \<open>BreakHandler\<close> is declared in breakhandler.h. breakwindow.cpp uses it as the list of
  the breakpoints, one per row of the view: \<open>at(index)\<close> is the breakpoint of a row (a
  null pointer when there is none), \<open>removeBreakpoint(data)\<close> takes that breakpoint out
  of the list, and the number of rows of the view's model is the number of breakpoints. A
  breakpoint is known by its pointer, so the handler is a list of pointers; the window
  adds the row of the current index.
\<close>

type_synonym BreakpointPtr = nat

record BreakWindow =
  handler :: "BreakpointPtr list"
  currentRow :: int

definition breakpointAt :: "BreakWindow \<Rightarrow> int \<Rightarrow> BreakpointPtr option" where
  "breakpointAt w index =
     (if 0 \<le> index \<and> index < int (length (handler w))
      then Some (handler w ! nat index) else None)"

definition removeBreakpoint :: "BreakpointPtr \<Rightarrow> BreakWindow \<Rightarrow> BreakWindow" where
  "removeBreakpoint data w = w\<lparr>handler := remove1 data (handler w)\<rparr>"

text \<open>
  The loop of lines 445-449, \<open>for (int i = list.size(); --i >= 0; )\<close>: the argument
  is the value of \<open>i\<close> before the decrement, the body runs with \<open>i - 1\<close>. The body
  reads \<open>breakpointAt(i)\<close>: the loop counter, not the row stored at \<open>list.at(i)\<close>.
\<close>

fun deleteLoop :: "nat \<Rightarrow> BreakWindow \<Rightarrow> BreakWindow" where
  "deleteLoop 0 w = w"
| "deleteLoop (Suc i) w =
     deleteLoop i (case breakpointAt w (int i) of
                     None \<Rightarrow> w
                   | Some data \<Rightarrow> removeBreakpoint data w)"

text \<open>
  \<open>BreakWindow::deleteBreakpoints(QList<int> list)\<close>, lines 438-455. The list is
  sorted in place (\<open>qSort\<close>) and then only its size is used.
  \<open>synchronizeBreakpoints()\<close> hands the list to the debugger engine and changes nothing
  here.
\<close>

definition deleteBreakpoints :: "int list \<Rightarrow> BreakWindow \<Rightarrow> BreakWindow" where
  "deleteBreakpoints list w =
     (if list = [] then w
      else let firstRow = hd list;
               sorted = sort list;
               w1 = deleteLoop (length sorted) w;
               row = min firstRow (int (length (handler w1)) - 1)
           in if row \<ge> 0 then w1\<lparr>currentRow := row\<rparr> else w1)"

text \<open>
  What the caller asks for, in the words of the claim: the breakpoints at the listed rows
  are removed, the breakpoints at every other row stay.
\<close>

definition rowsKept :: "int list \<Rightarrow> BreakpointPtr list \<Rightarrow> BreakpointPtr list" where
  "rowsKept list bps = map snd (filter (\<lambda>(i, b). int i \<notin> set list) (enumerate 0 bps))"

section \<open>Generic highlighter: the block state (highlighter.h)\<close>

text \<open>
  \<open>enum ObservableBlockState\<close>, highlighter.h lines 163-168.
\<close>

definition Default :: "32 word" where "Default = 0"
definition WillContinue :: "32 word" where "WillContinue = 1"
definition Continued :: "32 word" where "Continued = 2"
definition PersistentsStart :: "32 word" where "PersistentsStart = 3"

text \<open>
  The member of \<open>Highlighter\<close> that the state codec reads. The other members
  (highlighter.h lines 174-195) live in the record's extension.
\<close>

record Highlighter =
  m_regionDepth :: "32 word"

text \<open>
  Modelled from the spec: the bodies of \<open>Highlighter::computeState\<close>,
  \<open>Highlighter::extractRegionDepth\<close> and \<open>Highlighter::extractObservableState\<close>
  (highlighter.cpp is not among the sources; highlighter.h lines 169-172 declare them).
  The spec, section 4.1: "observableState occupies the low 12 bits, regionDepth the
  remaining bits", and the comment of highlighter.h lines 151-162 says the same. A block
  state is a C++ \<open>int\<close>: a 32-bit word read as two's complement, so the region depth is
  read back with the arithmetic shift.
\<close>

definition computeState :: "'a Highlighter_scheme \<Rightarrow> 32 word \<Rightarrow> 32 word" where
  "computeState h observableState = push_bit 12 (m_regionDepth h) OR observableState"

definition extractRegionDepth :: "32 word \<Rightarrow> 32 word" where
  "extractRegionDepth state = signed_drop_bit 12 state"

definition extractObservableState :: "32 word \<Rightarrow> 32 word" where
  "extractObservableState state = state AND 0xFFF"

section \<open>The breakpoint dialog changes the breakpoint exactly when it returns true\<close>

text \<open>
  The first user, run through \<open>showDialog\<close> for any conversions: the function name
  typed differs from the stored one, so the result is true and the breakpoint holds what
  the conversions read from the eight inputs.
\<close>

lemma edit_run:
  "showDialog qt userEditsAll (breakpointRead qt) freshDialog =
     (True,
      \<lparr>enabled = True, fileName = ''util.cpp'', lineNumber = toInt qt ''42'',
       funcName = ''main'', condition = toUtf8 qt ''i == 7'', ignoreCount = toInt qt ''3'',
       useFullPath = True, threadSpec = toUtf8 qt ''2'', address = toULongLong qt ''0x10''\<rparr>,
      snd (userEditsAll (populate qt (breakpointRead qt) freshDialog)))"
  by (simp add: showDialog_def userEditsAll_def unchanged_def store_def newLineNumber_def
      newUseFullPath_def newAddress_def newFunc_def newFileName_def newCondition_def
      newIgnoreCount_def newThreadSpec_def breakpointRead_def)

text \<open>
  Writing the values read from the dialog into a breakpoint that differs from them in at
  least one of the eight fields gives a different breakpoint.
\<close>

lemma store_changes:
  assumes "\<not> unchanged qt ui data"
  shows "store qt ui data \<noteq> data"
proof
  assume same: "store qt ui data = data"
  have "lineNumber (store qt ui data) = newLineNumber qt ui"
    "useFullPath (store qt ui data) = newUseFullPath ui"
    "address (store qt ui data) = newAddress qt ui"
    "funcName (store qt ui data) = newFunc ui"
    "fileName (store qt ui data) = newFileName ui"
    "condition (store qt ui data) = newCondition qt ui"
    "ignoreCount (store qt ui data) = newIgnoreCount qt ui"
    "threadSpec (store qt ui data) = newThreadSpec qt ui"
    by (simp_all add: store_def)
  then have "unchanged qt ui data"
    unfolding same by (simp add: unchanged_def)
  with assms show False by simp
qed

text \<open>The comparison of lines 151-154, written out over the widgets.\<close>

lemma unchanged_widgets:
  "unchanged qt ui data \<longleftrightarrow>
     toInt qt (lineEditLineNumber_text ui) = lineNumber data
     \<and> checkBoxUseFullPath_checked ui = useFullPath data
     \<and> toULongLong qt (lineEditAddress_text ui) = address data
     \<and> lineEditFunction_text ui = funcName data
     \<and> pathChooserFileName_path ui = fileName data
     \<and> toUtf8 qt (lineEditCondition_text ui) = condition data
     \<and> toInt qt (lineEditIgnoreCount_text ui) = ignoreCount data
     \<and> toUtf8 qt (lineEditThreadSpec_text ui) = threadSpec data"
  by (simp add: unchanged_def newLineNumber_def newUseFullPath_def newAddress_def newFunc_def
      newFileName_def newCondition_def newIgnoreCount_def newThreadSpec_def)

text \<open>
  Claim C8. \<open>BreakpointDialog::showDialog\<close> changes the breakpoint it is given if and
  only if it returns true. Let \<open>ui'\<close> be the widgets as the user leaves them; the
  entered values are what the code reads from them: \<open>toInt\<close> of the line number and
  ignore count texts, the state of the full-path check box, \<open>toULongLong\<close> of the
  address text, the function text, the path of the file chooser, and \<open>toUtf8\<close> of the
  condition and thread spec texts. When the dialog is not accepted, or it is accepted and
  each of these eight values equals the breakpoint's field, the result is false and the
  breakpoint is the one passed in. When the result is true, each of the eight fields holds
  its entered value, and the enabled flag and every member outside the eight are as
  before. The result is true exactly when the dialog was accepted and some entered value
  differs from its field, and exactly when the breakpoint afterwards differs from the one
  passed in. This holds for every behaviour of the user and of the Qt conversions.
\<close>

theorem showDialog_frame:
  assumes "showDialog qt exec data ui = (ret, data', ui')"
  shows "ui' = snd (exec (populate qt data ui))
    \<and> (fst (exec (populate qt data ui)) \<noteq> Accepted \<longrightarrow> \<not> ret \<and> data' = data)
    \<and> (fst (exec (populate qt data ui)) = Accepted
          \<and> toInt qt (lineEditLineNumber_text ui') = lineNumber data
          \<and> checkBoxUseFullPath_checked ui' = useFullPath data
          \<and> toULongLong qt (lineEditAddress_text ui') = address data
          \<and> lineEditFunction_text ui' = funcName data
          \<and> pathChooserFileName_path ui' = fileName data
          \<and> toUtf8 qt (lineEditCondition_text ui') = condition data
          \<and> toInt qt (lineEditIgnoreCount_text ui') = ignoreCount data
          \<and> toUtf8 qt (lineEditThreadSpec_text ui') = threadSpec data
          \<longrightarrow> \<not> ret \<and> data' = data)
    \<and> (ret \<longrightarrow> lineNumber data' = toInt qt (lineEditLineNumber_text ui')
            \<and> useFullPath data' = checkBoxUseFullPath_checked ui'
            \<and> address data' = toULongLong qt (lineEditAddress_text ui')
            \<and> funcName data' = lineEditFunction_text ui'
            \<and> fileName data' = pathChooserFileName_path ui'
            \<and> condition data' = toUtf8 qt (lineEditCondition_text ui')
            \<and> ignoreCount data' = toInt qt (lineEditIgnoreCount_text ui')
            \<and> threadSpec data' = toUtf8 qt (lineEditThreadSpec_text ui')
            \<and> enabled data' = enabled data
            \<and> BreakpointData.more data' = BreakpointData.more data)
    \<and> (ret \<longleftrightarrow> fst (exec (populate qt data ui)) = Accepted
            \<and> \<not> (toInt qt (lineEditLineNumber_text ui') = lineNumber data
                \<and> checkBoxUseFullPath_checked ui' = useFullPath data
                \<and> toULongLong qt (lineEditAddress_text ui') = address data
                \<and> lineEditFunction_text ui' = funcName data
                \<and> pathChooserFileName_path ui' = fileName data
                \<and> toUtf8 qt (lineEditCondition_text ui') = condition data
                \<and> toInt qt (lineEditIgnoreCount_text ui') = ignoreCount data
                \<and> toUtf8 qt (lineEditThreadSpec_text ui') = threadSpec data))
    \<and> (ret \<longleftrightarrow> data' \<noteq> data)"
proof (cases "exec (populate qt data ui)")
  case (Pair code u)
  show ?thesis
  proof (cases "code = Accepted \<and> \<not> unchanged qt u data")
    case True
    then have r: "ret" "data' = store qt u data" "ui' = u"
      using assms Pair by (auto simp: showDialog_def)
    have differs: "store qt u data \<noteq> data"
      using True by (simp add: store_changes)
    have "\<not> unchanged qt ui' data"
      using True r by simp
    then have entered: "\<not> (toInt qt (lineEditLineNumber_text ui') = lineNumber data
        \<and> checkBoxUseFullPath_checked ui' = useFullPath data
        \<and> toULongLong qt (lineEditAddress_text ui') = address data
        \<and> lineEditFunction_text ui' = funcName data
        \<and> pathChooserFileName_path ui' = fileName data
        \<and> toUtf8 qt (lineEditCondition_text ui') = condition data
        \<and> toInt qt (lineEditIgnoreCount_text ui') = ignoreCount data
        \<and> toUtf8 qt (lineEditThreadSpec_text ui') = threadSpec data)"
      unfolding unchanged_widgets .
    have stored: "lineNumber data' = toInt qt (lineEditLineNumber_text ui')
        \<and> useFullPath data' = checkBoxUseFullPath_checked ui'
        \<and> address data' = toULongLong qt (lineEditAddress_text ui')
        \<and> funcName data' = lineEditFunction_text ui'
        \<and> fileName data' = pathChooserFileName_path ui'
        \<and> condition data' = toUtf8 qt (lineEditCondition_text ui')
        \<and> ignoreCount data' = toInt qt (lineEditIgnoreCount_text ui')
        \<and> threadSpec data' = toUtf8 qt (lineEditThreadSpec_text ui')
        \<and> enabled data' = enabled data
        \<and> BreakpointData.more data' = BreakpointData.more data"
      using r by (simp add: store_def newLineNumber_def newUseFullPath_def newAddress_def
          newFunc_def newFileName_def newCondition_def newIgnoreCount_def newThreadSpec_def)
    have "fst (exec (populate qt data ui)) = Accepted" "ui' = snd (exec (populate qt data ui))"
      "data' \<noteq> data"
      using True Pair r differs by simp_all
    with r(1) entered stored show ?thesis
      by blast
  next
    case False
    then have r: "\<not> ret" "data' = data" "ui' = u"
      using assms Pair by (auto simp: showDialog_def split: if_splits)
    have "fst (exec (populate qt data ui)) \<noteq> Accepted \<or> unchanged qt ui' data"
      using False Pair r by auto
    then have "fst (exec (populate qt data ui)) \<noteq> Accepted
        \<or> (toInt qt (lineEditLineNumber_text ui') = lineNumber data
        \<and> checkBoxUseFullPath_checked ui' = useFullPath data
        \<and> toULongLong qt (lineEditAddress_text ui') = address data
        \<and> lineEditFunction_text ui' = funcName data
        \<and> pathChooserFileName_path ui' = fileName data
        \<and> toUtf8 qt (lineEditCondition_text ui') = condition data
        \<and> toInt qt (lineEditIgnoreCount_text ui') = ignoreCount data
        \<and> toUtf8 qt (lineEditThreadSpec_text ui') = threadSpec data)"
      unfolding unchanged_widgets .
    moreover have "ui' = snd (exec (populate qt data ui))"
      using Pair r by simp
    ultimately show ?thesis
      using r(1,2) by blast
  qed
qed

theorem showDialog_frame_witness:
  "\<forall>qt.
     fst (showDialog qt userEditsAll (breakpointRead qt) freshDialog)
   \<and> fst (snd (showDialog qt userEditsAll (breakpointRead qt) freshDialog)) =
       \<lparr>enabled = True, fileName = ''util.cpp'', lineNumber = toInt qt ''42'',
        funcName = ''main'', condition = toUtf8 qt ''i == 7'', ignoreCount = toInt qt ''3'',
        useFullPath = True, threadSpec = toUtf8 qt ''2'', address = toULongLong qt ''0x10''\<rparr>
   \<and> fst (snd (showDialog qt userEditsAll (breakpointRead qt) freshDialog)) \<noteq> breakpointRead qt
   \<and> \<not> fst (showDialog qt userCancels (breakpointRead qt) freshDialog)
   \<and> fst (snd (showDialog qt userCancels (breakpointRead qt) freshDialog)) = breakpointRead qt
   \<and> \<not> fst (showDialog qt userRetypes (breakpointRead qt) freshDialog)
   \<and> fst (snd (showDialog qt userRetypes (breakpointRead qt) freshDialog)) = breakpointRead qt"
proof
  fix qt
  let ?data = "breakpointRead qt"
  let ?shown = "populate qt ?data freshDialog"
  let ?edited = "\<lparr>enabled = True, fileName = ''util.cpp'', lineNumber = toInt qt ''42'',
        funcName = ''main'', condition = toUtf8 qt ''i == 7'', ignoreCount = toInt qt ''3'',
        useFullPath = True, threadSpec = toUtf8 qt ''2'', address = toULongLong qt ''0x10''\<rparr>"
  have "True \<longleftrightarrow> ?edited \<noteq> ?data"
    using showDialog_frame [OF edit_run [of qt]] by blast
  then have edit: "?edited \<noteq> ?data"
    by simp
  define c where "c = showDialog qt userCancels ?data freshDialog"
  have "showDialog qt userCancels ?data freshDialog = (fst c, fst (snd c), snd (snd c))"
    by (simp add: c_def)
  note cancelled = showDialog_frame [OF this]
  have "fst (userCancels ?shown) \<noteq> Accepted"
    by (simp add: userCancels_def)
  with cancelled have "\<not> fst c \<and> fst (snd c) = ?data"
    by blast
  then have cancel: "\<not> fst (showDialog qt userCancels ?data freshDialog)
      \<and> fst (snd (showDialog qt userCancels ?data freshDialog)) = ?data"
    by (simp add: c_def)
  define r where "r = showDialog qt userRetypes ?data freshDialog"
  have "showDialog qt userRetypes ?data freshDialog = (fst r, fst (snd r), snd (snd r))"
    by (simp add: r_def)
  note retyped = showDialog_frame [OF this]
  then have left: "snd (snd r) = snd (userRetypes ?shown)"
    by blast
  have "fst (userRetypes ?shown) = Accepted
      \<and> toInt qt (lineEditLineNumber_text (snd (snd r))) = lineNumber ?data
      \<and> checkBoxUseFullPath_checked (snd (snd r)) = useFullPath ?data
      \<and> toULongLong qt (lineEditAddress_text (snd (snd r))) = address ?data
      \<and> lineEditFunction_text (snd (snd r)) = funcName ?data
      \<and> pathChooserFileName_path (snd (snd r)) = fileName ?data
      \<and> toUtf8 qt (lineEditCondition_text (snd (snd r))) = condition ?data
      \<and> toInt qt (lineEditIgnoreCount_text (snd (snd r))) = ignoreCount ?data
      \<and> toUtf8 qt (lineEditThreadSpec_text (snd (snd r))) = threadSpec ?data"
    unfolding left by (simp add: userRetypes_def breakpointRead_def)
  with retyped have "\<not> fst r \<and> fst (snd r) = ?data"
    by blast
  then have same: "\<not> fst (showDialog qt userRetypes ?data freshDialog)
      \<and> fst (snd (showDialog qt userRetypes ?data freshDialog)) = ?data"
    by (simp add: r_def)
  show "fst (showDialog qt userEditsAll ?data freshDialog)
   \<and> fst (snd (showDialog qt userEditsAll ?data freshDialog)) = ?edited
   \<and> fst (snd (showDialog qt userEditsAll ?data freshDialog)) \<noteq> ?data
   \<and> \<not> fst (showDialog qt userCancels ?data freshDialog)
   \<and> fst (snd (showDialog qt userCancels ?data freshDialog)) = ?data
   \<and> \<not> fst (showDialog qt userRetypes ?data freshDialog)
   \<and> fst (snd (showDialog qt userRetypes ?data freshDialog)) = ?data"
    using edit cancel same by (simp add: edit_run)
qed

section \<open>Deleting breakpoints follows the loop counter, not the listed rows\<close>

lemma remove1_nth:
  "distinct xs \<Longrightarrow> i < length xs \<Longrightarrow> remove1 (xs ! i) xs = take i xs @ drop (Suc i) xs"
proof (induction xs arbitrary: i)
  case Nil
  then show ?case by simp
next
  case (Cons x xs)
  show ?case
  proof (cases i)
    case 0
    then show ?thesis by simp
  next
    case (Suc j)
    with Cons.prems have "xs ! j \<in> set xs" "x \<notin> set xs"
      by auto
    then have "x \<noteq> xs ! j"
      by auto
    with Cons Suc show ?thesis
      by simp
  qed
qed

text \<open>
  The loop started at \<open>n\<close> removes the rows \<open>n - 1\<close> down to \<open>0\<close>, whatever the list
  held: the first \<open>n\<close> breakpoints go.
\<close>

lemma deleteLoop_handler:
  "distinct (handler w) \<Longrightarrow> handler (deleteLoop n w) = drop n (handler w)"
proof (induction n arbitrary: w)
  case 0
  then show ?case by simp
next
  case (Suc n)
  show ?case
  proof (cases "n < length (handler w)")
    case True
    let ?w' = "removeBreakpoint (handler w ! n) w"
    have h: "handler ?w' = take n (handler w) @ drop (Suc n) (handler w)"
      using Suc.prems True by (simp add: removeBreakpoint_def remove1_nth)
    have "distinct (handler ?w')"
      using Suc.prems by (simp add: removeBreakpoint_def)
    then have "handler (deleteLoop n ?w') = drop n (handler ?w')"
      by (rule Suc.IH)
    also have "\<dots> = drop (Suc n) (handler w)"
      using True by (simp add: h)
    finally show ?thesis
      using True by (simp add: breakpointAt_def)
  next
    case False
    then show ?thesis
      using Suc by (simp add: breakpointAt_def)
  qed
qed

lemma deleteBreakpoints_handler:
  "distinct (handler w) \<Longrightarrow> list \<noteq> [] \<Longrightarrow>
   handler (deleteBreakpoints list w) = drop (length list) (handler w)"
  by (simp add: deleteBreakpoints_def Let_def deleteLoop_handler)

text \<open>
  Claim C10. \<open>deleteBreakpoints(QList<int>)\<close> is to remove the breakpoints at the listed
  rows and keep the others. The code does not: with the breakpoints 10, 20 and 30 in rows
  0, 1 and 2 and the list holding row 2 alone, it removes the breakpoint of row 0 and
  keeps the one of row 2, where the listed rows removed would leave 10 and 20.
\<close>

theorem deleteBreakpoints_ignores_listed_rows:
  "handler (deleteBreakpoints [2] \<lparr>handler = [10, 20, 30], currentRow = 2\<rparr>) = [20, 30]
   \<and> rowsKept [2] [10, 20, 30] = [10, 20]"
  by (simp add: deleteBreakpoints_def breakpointAt_def removeBreakpoint_def rowsKept_def
      enumerate_eq_zip)

section \<open>The block state decodes to what was encoded\<close>

lemma observable_in_range:
  fixes s :: "32 word"
  assumes "0 \<le> sint s" "sint s < 2 ^ 12"
  shows "take_bit 12 s = s"
proof -
  have "take_bit 12 (word_of_int (sint s) :: 32 word) = word_of_int (take_bit 12 (sint s))"
    by (rule take_bit_of_int)
  also have "take_bit 12 (sint s) = sint s"
    using assms by (rule take_bit_int_eq_self)
  finally show ?thesis
    by simp
qed

lemma depth_in_range:
  fixes d :: "32 word"
  assumes "- (2 ^ 19) \<le> sint d" "sint d < 2 ^ 19"
  shows "signed_take_bit 19 d = d"
proof -
  have "signed_take_bit 19 (word_of_int (sint d) :: 32 word)
      = word_of_int (signed_take_bit 19 (sint d))"
    by (rule signed_take_bit_of_int)
  also have "signed_take_bit 19 (sint d) = sint d"
    using assms by (simp add: signed_take_bit_int_eq_self_iff)
  finally show ?thesis
    by simp
qed

lemma low_bits_of_packed:
  fixes d s :: "32 word"
  assumes "take_bit 12 s = s"
  shows "(push_bit 12 d OR s) AND 0xFFF = s"
proof -
  have "(0xFFF :: 32 word) = mask 12"
    by (simp add: mask_eq_exp_minus_1)
  then have "(push_bit 12 d OR s) AND 0xFFF = take_bit 12 (push_bit 12 d OR s)"
    by (simp add: take_bit_eq_mask)
  also have "\<dots> = take_bit 12 s"
    by (simp add: take_bit_push_bit)
  finally show ?thesis
    using assms by simp
qed

lemma high_bits_of_packed:
  fixes d s :: "32 word"
  assumes d: "signed_take_bit 19 d = d" and s: "take_bit 12 s = s"
  shows "signed_drop_bit 12 (push_bit 12 d OR s) = d"
proof (rule bit_word_eqI)
  fix n
  assume n: "n < LENGTH(32)"
  have bs: "bit s m \<longleftrightarrow> m < 12 \<and> bit s m" for m
    by (subst s [symmetric]) (simp add: bit_take_bit_iff)
  have bd: "bit d m \<longleftrightarrow> bit d (min 19 m)" if "m < 32" for m
    using that by (subst d [symmetric]) (simp add: bit_signed_take_bit_iff)
  show "bit (signed_drop_bit 12 (push_bit 12 d OR s)) n \<longleftrightarrow> bit d n"
  proof (cases "n < 20")
    case True
    then have "bit (signed_drop_bit 12 (push_bit 12 d OR s)) n
        \<longleftrightarrow> bit (push_bit 12 d OR s) (n + 12)"
      using n by (simp add: bit_signed_drop_bit_iff add.commute)
    also have "\<dots> \<longleftrightarrow> bit d n"
      using True bs [of "n + 12"] by (simp add: bit_or_iff bit_push_bit_iff)
    finally show ?thesis .
  next
    case False
    then have "bit (signed_drop_bit 12 (push_bit 12 d OR s)) n
        \<longleftrightarrow> bit (push_bit 12 d OR s) 31"
      using n by (simp add: bit_signed_drop_bit_iff)
    also have "\<dots> \<longleftrightarrow> bit d 19"
      using bs [of 31] by (simp add: bit_or_iff bit_push_bit_iff)
    also have "\<dots> \<longleftrightarrow> bit d n"
      using bd [of n] n False by (simp add: min_def)
    finally show ?thesis .
  qed
qed

text \<open>
  The range of the region depth is that of a signed field of 20 bits: the depth
  \<open>2 ^ 19\<close> sets the sign bit of the state and reads back negative.
\<close>

lemma region_depth_beyond_range:
  "extractRegionDepth (computeState \<lparr>m_regionDepth = 2 ^ 19\<rparr> Default) \<noteq> 2 ^ 19"
  by (simp add: extractRegionDepth_def computeState_def Default_def)

text \<open>
  Claim C1. State codec round trip: for every observable state that fits the low 12 bits
  (0 to 4095) and every region depth that fits the remaining 20 bits of the
  \<open>int\<close> (from \<open>- 2 ^ 19\<close> to \<open>2 ^ 19 - 1\<close>, so every depth from 0 to 524287), decoding
  the state that \<open>computeState\<close> packs gives back the same pair:
  \<open>extractRegionDepth\<close> returns the region depth and \<open>extractObservableState\<close> the
  observable state.
\<close>

theorem state_codec_round_trip:
  assumes "- (2 ^ 19) \<le> sint (m_regionDepth h)" and "sint (m_regionDepth h) < 2 ^ 19"
    and "0 \<le> sint observableState" and "sint observableState < 2 ^ 12"
  shows "extractRegionDepth (computeState h observableState) = m_regionDepth h
    \<and> extractObservableState (computeState h observableState) = observableState"
proof -
  have d: "signed_take_bit 19 (m_regionDepth h) = m_regionDepth h"
    using assms(1,2) by (rule depth_in_range)
  have s: "take_bit 12 observableState = observableState"
    using assms(3,4) by (rule observable_in_range)
  show ?thesis
    using d s
    by (simp add: extractRegionDepth_def extractObservableState_def computeState_def
        high_bits_of_packed low_bits_of_packed)
qed

theorem state_codec_round_trip_witness:
  "extractRegionDepth (computeState \<lparr>m_regionDepth = 5\<rparr> PersistentsStart) = 5
   \<and> extractObservableState (computeState \<lparr>m_regionDepth = 5\<rparr> PersistentsStart)
       = PersistentsStart"
  using state_codec_round_trip [of "\<lparr>m_regionDepth = 5\<rparr>" PersistentsStart]
  by (simp add: PersistentsStart_def)

end
